theory Spec2Isabelle
  imports Complex_Main "HOL-Library.Word" "HOL-Library.Signed_Division"
begin

section \<open>The operating system as seen by the two clients\<close>

text \<open>
  Both modules talk to their peer through the socket calls of libc. A call's result is
  chosen by the environment (kernel and peer), so the model threads a \<open>world\<close> through
  the code: a script of the answers the environment gives to the successive calls, the
  trace of the calls and log lines made so far, and the receive timeout configured on
  each descriptor. A script that is used up answers every further call with failure
  (\<open>-1\<close>); as each modelled function makes a bounded number of calls, every run of the
  code is the run on some finite script.

  Time is not modelled: a call always returns. \<open>rcvtimeo\<close> only records which timeout
  the kernel has been asked to apply.
\<close>

type_synonym byte = "8 word"
type_synonym cell = "32 word"

datatype level = LOGE | LOGW

datatype event =
    Socket
  | Signal_SIGPIPE_IGN
  | Connect int string
  | Setsockopt_RCVTIMEO int nat
  | Usleep nat
  | Close int
  | Send int "byte list"
  | Sendmsg int "cell list" "cell list"
  | Recv int nat
  | Log level string

text \<open>
  One answer of the environment: the call's return value and, for \<open>recv\<close>, the bytes
  the peer has made available. \<open>Sendmsg fd msg fds\<close> records the message cells of the
  single io vector and the cells of the data of the \<open>SCM_RIGHTS\<close> control message.
\<close>

record answer =
  ret :: int
  payload :: "byte list"

record world =
  script :: "answer list"
  trace :: "event list"
  rcvtimeo :: "int \<Rightarrow> nat option"

definition emit :: "event \<Rightarrow> world \<Rightarrow> world" where
  "emit e w = w\<lparr>trace := trace w @ [e]\<rparr>"

definition next_answer :: "world \<Rightarrow> answer \<times> world" where
  "next_answer w =
     (case script w of
        [] \<Rightarrow> (\<lparr>ret = -1, payload = []\<rparr>, w)
      | a # as \<Rightarrow> (a, w\<lparr>script := as\<rparr>))"

text \<open>\<open>socket(AF_UNIX, SOCK_STREAM, 0)\<close>: a new descriptor has no receive timeout.\<close>

definition sys_socket :: "world \<Rightarrow> int \<times> world" where
  "sys_socket w =
     (let (a, w1) = next_answer w; w2 = emit Socket w1
      in if ret a < 0 then (ret a, w2)
         else (ret a, w2\<lparr>rcvtimeo := (rcvtimeo w2)(ret a := None)\<rparr>))"

definition sys_connect :: "int \<Rightarrow> string \<Rightarrow> world \<Rightarrow> int \<times> world" where
  "sys_connect fd path w =
     (let (a, w1) = next_answer w in (ret a, emit (Connect fd path) w1))"

text \<open>\<open>setsockopt(fd, SOL_SOCKET, SO_RCVTIMEO, ...)\<close> with \<open>tv_sec = secs\<close>.\<close>

definition sys_setsockopt_rcvtimeo :: "int \<Rightarrow> nat \<Rightarrow> world \<Rightarrow> int \<times> world" where
  "sys_setsockopt_rcvtimeo fd secs w =
     (let (a, w1) = next_answer w; w2 = emit (Setsockopt_RCVTIMEO fd secs) w1
      in if ret a < 0 then (ret a, w2)
         else (ret a, w2\<lparr>rcvtimeo := (rcvtimeo w2)(fd := Some secs)\<rparr>))"

definition sys_close :: "int \<Rightarrow> world \<Rightarrow> world" where
  "sys_close fd w = (emit (Close fd) w)\<lparr>rcvtimeo := (rcvtimeo w)(fd := None)\<rparr>"

definition sys_usleep :: "nat \<Rightarrow> world \<Rightarrow> world" where
  "sys_usleep us w = emit (Usleep us) w"

definition sys_signal_ignore_sigpipe :: "world \<Rightarrow> world" where
  "sys_signal_ignore_sigpipe w = emit Signal_SIGPIPE_IGN w"

definition sys_send :: "int \<Rightarrow> byte list \<Rightarrow> world \<Rightarrow> int \<times> world" where
  "sys_send fd bs w =
     (let (a, w1) = next_answer w in (ret a, emit (Send fd bs) w1))"

definition sys_sendmsg :: "int \<Rightarrow> cell list \<Rightarrow> cell list \<Rightarrow> world \<Rightarrow> int \<times> world" where
  "sys_sendmsg fd msg fds w =
     (let (a, w1) = next_answer w in (ret a, emit (Sendmsg fd msg fds) w1))"

text \<open>
  \<open>recv(fd, buf, n, flags)\<close>: a negative answer is a failure; otherwise the kernel
  stores at most \<open>n\<close> of the available bytes and returns how many it stored.
\<close>

definition sys_recv :: "int \<Rightarrow> nat \<Rightarrow> world \<Rightarrow> int \<times> byte list \<times> world" where
  "sys_recv fd n w =
     (let (a, w1) = next_answer w; w2 = emit (Recv fd n) w1
      in if ret a < 0 then (ret a, [], w2)
         else (int (length (take n (payload a))), take n (payload a), w2))"

definition alog :: "level \<Rightarrow> string \<Rightarrow> world \<Rightarrow> world" where
  "alog l msg w = emit (Log l msg) w"

text \<open>Bytes of a string literal, and the C string stored in a buffer.\<close>

definition bytes :: "string \<Rightarrow> byte list" where
  "bytes s = map of_char s"

definition cstring :: "byte list \<Rightarrow> byte list" where
  "cstring buf = takeWhile (\<lambda>b. b \<noteq> 0) buf"

section \<open>Connection manager\<close>

definition SFDROID_ROOT_sensors :: string where
  "SFDROID_ROOT_sensors = ''/tmp/sfdroid''"

definition SENSORS_HANDLE_FILE :: string where
  "SENSORS_HANDLE_FILE = SFDROID_ROOT_sensors @ ''/sensors_handle''"

definition SFDROID_ROOT_sharebuffer :: string where
  "SFDROID_ROOT_sharebuffer = ''/tmp/sfdroid/''"

definition SHM_BUFFER_HANDLE_FILE :: string where
  "SHM_BUFFER_HANDLE_FILE = SFDROID_ROOT_sharebuffer @ ''/gralloc_buffer_handle''"

text \<open>\<open>connect_to_sfdroid\<close> of \<open>sfdroid_sensors.c\<close>. The logged \<open>strerror\<close> text is left out.\<close>

definition connect_to_sfdroid :: "world \<Rightarrow> int \<times> world" where
  "connect_to_sfdroid w =
     (let (fd, w1) = sys_socket w in
      if fd < 0 then (-1, alog LOGE ''error creating socket stream'' w1)
      else
        let w2 = sys_signal_ignore_sigpipe w1;
            (c, w3) = sys_connect fd SENSORS_HANDLE_FILE w2 in
        if c < 0 then
          (-1, sys_close fd
                 (sys_usleep 100000
                    (alog LOGE ''error connecting to sfdroidsensors'' w3)))
        else
          let (s, w4) = sys_setsockopt_rcvtimeo fd 1 w3 in
          if s < 0 then (fd, alog LOGE ''failed to set timeout on sensor socket'' w4)
          else (fd, w4))"

text \<open>\<open>connect_to_renderer\<close> of \<open>sharebuffer.cpp\<close>.\<close>

definition connect_to_renderer :: "world \<Rightarrow> int \<times> world" where
  "connect_to_renderer w =
     (let (fd, w1) = sys_socket w in
      if fd < 0 then (-1, alog LOGE ''error creating socket stream'' w1)
      else
        let (c, w2) = sys_connect fd SHM_BUFFER_HANDLE_FILE w1 in
        if c < 0 then (-1, sys_close fd (alog LOGE ''error connecting to renderer'' w2))
        else (fd, w2))"

section \<open>Sensor polling client (\<open>sfdroid_sensors.c\<close>)\<close>

text \<open>
  What the build environment supplies and the sources under study do not fix: whether
  plain \<open>char\<close> is signed, the constant \<open>SENSORS_HANDLE_BASE\<close> of
  \<open>hardware/sensors.h\<close>, and libc's \<open>sscanf\<close> on the pattern
  \<open>acceleration:%g:%g:%g:%lld\<close>, which yields the three values and the time stamp
  exactly when it converts all four fields. The type \<open>'f\<close> stands for \<open>float\<close>.
\<close>

record 'f platform =
  char_signed :: bool
  SENSORS_HANDLE_BASE :: int
  sscanf_acceleration :: "byte list \<Rightarrow> ('f \<times> 'f \<times> 'f \<times> int) option"

definition MAX_NUM_SENSORS :: int where
  "MAX_NUM_SENSORS = 5"

definition ID_BASE :: "'f platform \<Rightarrow> int" where
  "ID_BASE P = SENSORS_HANDLE_BASE P"

definition ID_ACCELERATION :: "'f platform \<Rightarrow> int" where
  "ID_ACCELERATION P = ID_BASE P + 0"

definition ID_MAGNETIC_FIELD :: "'f platform \<Rightarrow> int" where
  "ID_MAGNETIC_FIELD P = ID_BASE P + 1"

definition ID_ORIENTATION :: "'f platform \<Rightarrow> int" where
  "ID_ORIENTATION P = ID_BASE P + 2"

definition ID_TEMPERATURE :: "'f platform \<Rightarrow> int" where
  "ID_TEMPERATURE P = ID_BASE P + 3"

definition ID_PROXIMITY :: "'f platform \<Rightarrow> int" where
  "ID_PROXIMITY P = ID_BASE P + 4"

definition sensorIds :: "'f platform \<Rightarrow> (string \<times> int) list" where
  "sensorIds P =
     [(''acceleration'', ID_ACCELERATION P),
      (''magnetic-field'', ID_MAGNETIC_FIELD P),
      (''orientation'', ID_ORIENTATION P),
      (''temperature'', ID_TEMPERATURE P),
      (''proximity'', ID_PROXIMITY P)]"

fun lookup_name :: "int \<Rightarrow> (string \<times> int) list \<Rightarrow> string" where
  "lookup_name ident [] = ''<UNKNOWN>''"
| "lookup_name ident ((name, k) # rest) = (if ident = k then name else lookup_name ident rest)"

definition sensorIdToName :: "'f platform \<Rightarrow> int \<Rightarrow> string" where
  "sensorIdToName P ident = lookup_name ident (sensorIds P)"

text \<open>Decimal text of an integer, as \<open>%d\<close> and \<open>%lld\<close> print it.\<close>

function dec_digits :: "nat \<Rightarrow> string" where
  "dec_digits n =
     (if n < 10 then [char_of (48 + n)]
      else dec_digits (n div 10) @ [char_of (48 + n mod 10)])"
  by pat_completeness auto
termination
  by (relation "measure id") auto

definition show_int :: "int \<Rightarrow> string" where
  "show_int i = (if i < 0 then CHR ''-'' # dec_digits (nat (- i)) else dec_digits (nat i))"

text \<open>\<open>snprintf(command, sizeof command, ...)\<close> with \<open>char command[128]\<close>.\<close>

definition snprintf_command :: "string \<Rightarrow> string" where
  "snprintf_command s = take 127 s"

text \<open>The one-byte length prefix \<open>syncbuf[0] = strlen(command) + 1\<close>.\<close>

definition sync_byte :: "string \<Rightarrow> byte" where
  "sync_byte command = of_nat (length command + 1)"

text \<open>
  The fields of \<open>struct SensorPoll\<close> the client uses. Descriptors, counts and loop
  indices are C \<open>int\<close>s that the code only copies, compares and increments below
  \<open>count\<close>, so they are modelled by \<open>int\<close>; the \<open>int64_t\<close> delay is only divided.
\<close>

record SensorPoll =
  fd :: int
  delay :: int

text \<open>
  The fields of \<open>sensors_event_t\<close> that \<open>poll__poll\<close> fills in, but for \<open>version\<close>,
  which is the constant \<open>sizeof(sensors_event_t)\<close>.
\<close>

record 'f sensors_event_t =
  sensor :: int
  acc_x :: 'f
  acc_y :: 'f
  acc_z :: 'f
  timestamp :: int

text \<open>The block \<open>if (ctl->fd < 0) ctl->fd = connect_to_sfdroid();\<close> that opens each call.\<close>

definition open_connection :: "SensorPoll \<Rightarrow> world \<Rightarrow> SensorPoll \<times> world" where
  "open_connection ctl w =
     (if fd ctl < 0 then (let (f, w1) = connect_to_sfdroid w in (ctl\<lparr>fd := f\<rparr>, w1))
      else (ctl, w))"

text \<open>
  The length passed to the second \<open>recv\<close> is \<open>syncbuf[0]\<close>, a plain \<open>char\<close>, converted
  to \<open>size_t\<close> (taken as 32 bits wide; a wider \<open>size_t\<close> only makes a converted
  negative value larger).
\<close>

definition recv_request :: "'f platform \<Rightarrow> byte \<Rightarrow> nat" where
  "recv_request P b = (if char_signed P then nat (sint b mod 2 ^ 32) else unat b)"

definition BUFF_SIZE :: nat where
  "BUFF_SIZE = 256"

datatype fault = Overrun nat

datatype 'f step =
    Fault nat
  | Return int SensorPoll world
  | Continue "'f sensors_event_t" world

text \<open>
  One pass through the body of the \<open>for\<close> loop of \<open>poll__poll\<close>, slot \<open>i\<close>.
  \<open>Fault n\<close>: the code writes \<open>buff[n]\<close> with \<open>n\<close> outside \<open>char buff[256]\<close>.
\<close>

definition poll_iteration :: "'f platform \<Rightarrow> SensorPoll \<Rightarrow> int \<Rightarrow> world \<Rightarrow> 'f step" where
  "poll_iteration P ctl i w =
     (let w0 = sys_usleep (nat ((delay ctl sdiv 1000) mod 2 ^ 32)) w;
          command = snprintf_command ''get:accelerometer'';
          syncbuf = sync_byte command;
          (r1, w1) = sys_send (fd ctl) [syncbuf] w0 in
      if r1 < 0 then
        Return i (ctl\<lparr>fd := -1\<rparr>)
          (sys_close (fd ctl) (alog LOGE ''poll__poll: when sending sync byte'' w1))
      else
        let (r2, w2) = sys_send (fd ctl) (bytes command @ [0]) w1 in
        if r2 < 0 then
          Return i (ctl\<lparr>fd := -1\<rparr>)
            (sys_close (fd ctl) (alog LOGE ''poll__poll: when sending command'' w2))
        else
          let (len1, d1, w3) = sys_recv (fd ctl) 1 w2 in
          if len1 < 0 then
            Return i (ctl\<lparr>fd := -1\<rparr>)
              (sys_close (fd ctl) (alog LOGE ''poll__poll recv failed'' w3))
          else
            let syncbuf' = (case d1 of [] \<Rightarrow> syncbuf | b # _ \<Rightarrow> b);
                (len, buff, w4) = sys_recv (fd ctl) (recv_request P syncbuf') w3 in
            if len < 0 then
              Return i (ctl\<lparr>fd := -1\<rparr>)
                (sys_close (fd ctl) (alog LOGE ''poll__poll recv failed'' w4))
            else if BUFF_SIZE \<le> length buff then Fault (length buff)
            else
              (case sscanf_acceleration P (cstring (buff @ [0])) of
                 Some (x, y, z, t) \<Rightarrow>
                   Continue \<lparr>sensor = ID_ACCELERATION P, acc_x = x, acc_y = y,
                             acc_z = z, timestamp = t\<rparr> w4
               | None \<Rightarrow> Return i ctl (alog LOGE ''unsupported command'' w4)))"

function poll_loop ::
  "'f platform \<Rightarrow> int \<Rightarrow> int \<Rightarrow> SensorPoll \<Rightarrow> 'f sensors_event_t list \<Rightarrow> world \<Rightarrow>
     fault + (int \<times> SensorPoll \<times> 'f sensors_event_t list \<times> world)" where
  "poll_loop P count i ctl evs w =
     (if i < count then
        (case poll_iteration P ctl i w of
           Fault n \<Rightarrow> Inl (Overrun n)
         | Return r ctl' w' \<Rightarrow> Inr (r, ctl', evs, w')
         | Continue e w' \<Rightarrow> poll_loop P count (i + 1) ctl (evs @ [e]) w')
      else Inr (count, ctl, evs, w))"
  by pat_completeness auto
termination
  by (relation "measure (\<lambda>(P, count, i, ctl, evs, w). nat (count - i))") auto

definition poll__poll ::
  "'f platform \<Rightarrow> SensorPoll \<Rightarrow> int \<Rightarrow> world \<Rightarrow>
     fault + (int \<times> SensorPoll \<times> 'f sensors_event_t list \<times> world)" where
  "poll__poll P ctl count w =
     (let (ctl1, w1) = open_connection ctl w in
      if 0 \<le> fd ctl1 then poll_loop P count 0 ctl1 [] w1
      else Inr (0, ctl1, [], w1))"

definition poll__activate ::
  "'f platform \<Rightarrow> SensorPoll \<Rightarrow> int \<Rightarrow> int \<Rightarrow> world \<Rightarrow> int \<times> SensorPoll \<times> world" where
  "poll__activate P ctl handle enabled w =
     (let (ctl1, w1) = open_connection ctl w in
      if handle = ID_ACCELERATION P then
        if 0 \<le> fd ctl1 then
          let command = snprintf_command
                (''set:'' @ sensorIdToName P handle @ '':'' @
                 show_int (if enabled \<noteq> 0 then 1 else 0));
              (r1, w2) = sys_send (fd ctl1) [sync_byte command] w1 in
          if r1 < 0 then
            (-1, ctl1\<lparr>fd := -1\<rparr>,
             sys_close (fd ctl1) (alog LOGE ''poll__activate: when sending sync byte'' w2))
          else
            let (r2, w3) = sys_send (fd ctl1) (bytes command @ [0]) w2 in
            if r2 < 0 then
              (-1, ctl1\<lparr>fd := -1\<rparr>,
               alog LOGE ''poll__activate: when sending command'' (sys_close (fd ctl1) w3))
            else (0, ctl1, w3)
        else (0, ctl1, w1)
      else (-1, ctl1, w1))"

definition poll__setDelay ::
  "'f platform \<Rightarrow> SensorPoll \<Rightarrow> int \<Rightarrow> int \<Rightarrow> world \<Rightarrow> int \<times> SensorPoll \<times> world" where
  "poll__setDelay P ctl handle ns w =
     (let (ctl0, w1) = open_connection ctl w;
          ctl1 = ctl0\<lparr>delay := ns\<rparr> in
      if handle = ID_ACCELERATION P then
        if 0 \<le> fd ctl1 then
          let command = snprintf_command
                (''setDelay:'' @ sensorIdToName P handle @ '':'' @ show_int ns);
              (r1, w2) = sys_send (fd ctl1) [sync_byte command] w1 in
          if r1 < 0 then
            (-1, ctl1\<lparr>fd := -1\<rparr>,
             sys_close (fd ctl1) (alog LOGE ''poll__setDelay: when sending sync byte'' w2))
          else
            let (r2, w3) = sys_send (fd ctl1) (bytes command @ [0]) w2 in
            if r2 < 0 then
              (-1, ctl1\<lparr>fd := -1\<rparr>,
               alog LOGE ''poll__setDelay: when sending command'' (sys_close (fd ctl1) w3))
            else (0, ctl1, w3)
        else (0, ctl1, w1)
      else (-1, ctl1, w1))"

section \<open>Buffer handle relay client (\<open>sharebuffer.cpp\<close>)\<close>

text \<open>
  \<open>native_handle_t\<close> is declared by \<open>cutils/native_handle.h\<close>, outside these sources,
  which use its fields \<open>numFds\<close>, \<open>numInts\<close> and \<open>data\<close>: three \<open>int\<close> header fields
  followed by \<open>numFds + numInts\<close> \<open>int\<close>s, the descriptors first. All fields of the
  message are four bytes wide, so the message is modelled as a list of 32-bit cells.
\<close>

record native_handle_t =
  version :: cell
  numFds :: cell
  numInts :: cell
  data :: "cell list"

record buffer_info_t =
  width :: cell
  height :: cell
  stride :: cell
  pixel_format :: cell

definition info_cells :: "buffer_info_t \<Rightarrow> cell list" where
  "info_cells info = [width info, height info, stride info, pixel_format info]"

definition handle_cells :: "native_handle_t \<Rightarrow> cell list" where
  "handle_cells h = [version h, numFds h, numInts h] @ data h"

text \<open>The two \<open>unsigned int\<close> sizes, in bytes; \<open>sizeof(struct buffer_info_t) = 16\<close>,
  \<open>sizeof(native_handle_t) = 12\<close>, \<open>sizeof(int) = 4\<close>.\<close>

definition buffer_size :: "native_handle_t \<Rightarrow> 32 word" where
  "buffer_size h = 16 + 12 + 4 * (numFds h + numInts h)"

definition handle_size :: "native_handle_t \<Rightarrow> 32 word" where
  "handle_size h = 12 + 4 * (numFds h + numInts h)"

definition message_buffer :: "native_handle_t \<Rightarrow> buffer_info_t \<Rightarrow> cell list" where
  "message_buffer h info =
     take (unat (buffer_size h) div 4)
       (info_cells info @ take (unat (handle_size h) div 4) (handle_cells h))"

text \<open>
  The control message. The macros \<open>CMSG_SPACE\<close>, \<open>CMSG_LEN\<close> and \<open>CMSG_DATA\<close> come from
  the platform's \<open>sys/socket.h\<close>; they round lengths up to a multiple of an alignment
  unit \<open>al\<close> (the size of \<open>size_t\<close> or \<open>long\<close>: 4 on a 32-bit platform, 8 on a 64-bit
  one), which is a parameter here:
  \<open>CMSG_LEN(n) = CMSG_ALIGN(sizeof(struct cmsghdr)) + n\<close> and
  \<open>CMSG_SPACE(n) = CMSG_ALIGN(sizeof(struct cmsghdr)) + CMSG_ALIGN(n)\<close>.
  The code zeroes \<open>ancillary_buffer\<close>, sets \<open>cmsg_len\<close> to \<open>msg_controllen\<close>, that is to
  \<open>CMSG_SPACE(sizeof(int) * numFds)\<close>, and stores the \<open>numFds\<close> descriptors at the start
  of the data area. The data area the kernel is handed is thus
  \<open>CMSG_ALIGN(sizeof(int) * numFds)\<close> bytes long: the descriptors, followed by zero cells
  where the rounding adds room. (The count is taken as not negative; the \<open>size_t\<close>
  product of a negative \<open>numFds\<close> is not modelled.)
\<close>

definition CMSG_ALIGN :: "nat \<Rightarrow> nat \<Rightarrow> nat" where
  "CMSG_ALIGN al len = ((len + al - 1) div al) * al"

definition control_cells :: "nat \<Rightarrow> native_handle_t \<Rightarrow> nat" where
  "control_cells al h = CMSG_ALIGN al (4 * nat (sint (numFds h))) div 4"

definition ancillary_fds :: "nat \<Rightarrow> native_handle_t \<Rightarrow> cell list" where
  "ancillary_fds al h =
     take (nat (sint (numFds h))) (data h) @
     replicate (control_cells al h - nat (sint (numFds h))) 0"

definition send_native_handle ::
  "nat \<Rightarrow> int \<Rightarrow> native_handle_t \<Rightarrow> cell \<Rightarrow> cell \<Rightarrow> cell \<Rightarrow> cell \<Rightarrow> world \<Rightarrow>
     int \<times> world" where
  "send_native_handle al sock h wid hei str pf w =
     (let info = \<lparr>width = wid, height = hei, stride = str, pixel_format = pf\<rparr>
      in sys_sendmsg sock (message_buffer h info) (ancillary_fds al h) w)"

text \<open>
  \<open>char message_buffer[3]\<close> of \<open>recv_status\<close> is not initialised: \<open>junk\<close> is what the
  stack holds there, and \<open>store3\<close> overwrites as many bytes as \<open>recv\<close> delivered.
\<close>

fun store3 :: "byte list \<Rightarrow> byte \<times> byte \<times> byte \<Rightarrow> byte \<times> byte \<times> byte" where
  "store3 (a # b # c # rest) j = (a, b, c)"
| "store3 [a, b] (x, y, z) = (a, b, z)"
| "store3 [a] (x, y, z) = (a, y, z)"
| "store3 [] j = j"

text \<open>
  \<open>recv_status(fd, &failed)\<close>: the return value, what is stored to \<open>*failed\<close>
  (\<open>None\<close>: nothing is stored) and the new world.
\<close>

definition recv_status ::
  "int \<Rightarrow> byte \<times> byte \<times> byte \<Rightarrow> world \<Rightarrow> int \<times> int option \<times> world" where
  "recv_status sock junk w =
     (let (r, d, w1) = sys_recv sock 3 w in
      if r < 0 then (-1, None, w1)
      else
        let (b0, b1, b2) = store3 d junk in
        if b2 \<noteq> 0 then
          (-1, None, alog LOGE ''message_buffer is not a 0 terminated string'' w1)
        else if cstring [b0, b1, b2] = bytes ''OK'' then (0, Some 0, w1)
        else if cstring [b0, b1, b2] \<noteq> bytes ''FA'' then
          (-1, Some 1, alog LOGE ''unknown status'' w1)
        else (-1, Some 1, w1))"

record private_module_t =
  fd_renderer :: int

definition exit_error :: "private_module_t \<Rightarrow> world \<Rightarrow> int \<times> private_module_t \<times> world" where
  "exit_error m w = (-1, m\<lparr>fd_renderer := -1\<rparr>, sys_close (fd_renderer m) w)"

definition fb_post ::
  "nat \<Rightarrow> private_module_t \<Rightarrow> native_handle_t \<Rightarrow> cell \<Rightarrow> cell \<Rightarrow> cell \<Rightarrow> cell \<Rightarrow>
     byte \<times> byte \<times> byte \<Rightarrow> world \<Rightarrow> int \<times> private_module_t \<times> world" where
  "fb_post al m buffer wid hei str pf junk w =
     (let (m1, w1) =
            (if fd_renderer m < 0 then
               (let (f, w') = connect_to_renderer (alog LOGW ''connecting to renderer'' w)
                in (m\<lparr>fd_renderer := f\<rparr>, w'))
             else (m, w)) in
      if 0 \<le> fd_renderer m1 then
        let (s, w2) = send_native_handle al (fd_renderer m1) buffer wid hei str pf w1 in
        if s < 0 then exit_error m1 (alog LOGW ''sending buffer failed'' w2)
        else
          let (r, failed, w3) = recv_status (fd_renderer m1) junk w2 in
          if r < 0 then exit_error m1 (alog LOGW ''recv_status failed'' w3)
          else (0, m1, w3)
      else (0, m1, w1))"

section \<open>Notions used to state the properties\<close>

text \<open>The calls that put bytes on a channel.\<close>

fun is_send :: "event \<Rightarrow> bool" where
  "is_send (Send s bs) = True"
| "is_send (Sendmsg s msg fds) = True"
| "is_send e = False"



text \<open>
  The state in which \<open>fb_post\<close> reaches its test \<open>m->fd_renderer >= 0\<close>: the channel as
  it was when connected, and after the connection attempt otherwise.
\<close>

definition open_renderer :: "private_module_t \<Rightarrow> world \<Rightarrow> private_module_t \<times> world" where
  "open_renderer m w =
     (if fd_renderer m < 0 then
        (let (f, w') = connect_to_renderer (alog LOGW ''connecting to renderer'' w)
         in (m\<lparr>fd_renderer := f\<rparr>, w'))
      else (m, w))"

text \<open>
  The outbound relay message in the specification's words: the four descriptor fields,
  the handle's header, then its \<open>numInts\<close> plain integers, the descriptors travelling as
  control data only.
\<close>

definition spec_relay_message :: "native_handle_t \<Rightarrow> buffer_info_t \<Rightarrow> cell list" where
  "spec_relay_message h info =
     info_cells info @ [version h, numFds h, numInts h] @
     take (nat (sint (numInts h))) (drop (nat (sint (numFds h))) (data h))"

section \<open>Concrete environments\<close>

text \<open>
  Closed instances of the theorems below are evaluated on these: a process that has made
  no call yet, answers of the environment, the state \<open>open_sensors\<close> leaves behind
  (\<open>memset\<close> to zero, then \<open>fd = -1\<close>), and two platforms that differ in the signedness of
  \<open>char\<close>. Their \<open>sscanf\<close> converts the one reply used in the instances as libc does, and
  refuses everything else; the instances feed it only that reply and texts that libc
  refuses too.
\<close>

definition boot :: "answer list \<Rightarrow> world" where
  "boot sc = \<lparr>script = sc, trace = [], rcvtimeo = (\<lambda>sock. None)\<rparr>"

definition returns :: "int \<Rightarrow> answer" where
  "returns r = \<lparr>ret = r, payload = []\<rparr>"

definition delivers :: "byte list \<Rightarrow> answer" where
  "delivers bs = \<lparr>ret = 0, payload = bs\<rparr>"

definition open_sensors :: SensorPoll where
  "open_sensors = \<lparr>fd = -1, delay = 0\<rparr>"

definition sscanf_one_reply :: "byte list \<Rightarrow> (real \<times> real \<times> real \<times> int) option" where
  "sscanf_one_reply s =
     (if s = bytes ''acceleration:1.0:2.0:3.0:1000'' then Some (1, 2, 3, 1000) else None)"

definition unsigned_char_platform :: "real platform" where
  "unsigned_char_platform =
     \<lparr>char_signed = False, SENSORS_HANDLE_BASE = 0, sscanf_acceleration = sscanf_one_reply\<rparr>"

definition signed_char_platform :: "real platform" where
  "signed_char_platform =
     \<lparr>char_signed = True, SENSORS_HANDLE_BASE = 0, sscanf_acceleration = sscanf_one_reply\<rparr>"

definition one_fd_handle :: native_handle_t where
  "one_fd_handle = \<lparr>version = 12, numFds = 1, numInts = 0, data = [7]\<rparr>"

definition fd_and_ints_handle :: native_handle_t where
  "fd_and_ints_handle = \<lparr>version = 12, numFds = 1, numInts = 2, data = [7, 8, 9]\<rparr>"


section \<open>Properties\<close>

lemmas sys_defs = emit_def next_answer_def sys_socket_def sys_connect_def
  sys_setsockopt_rcvtimeo_def sys_close_def sys_usleep_def sys_signal_ignore_sigpipe_def
  sys_send_def sys_sendmsg_def sys_recv_def alog_def

lemmas fixture_defs = boot_def returns_def delivers_def open_sensors_def

lemma fixture_fields:
  "script (boot sc) = sc" "trace (boot sc) = []"
  "ret (returns r) = r" "ret (delivers bs) = 0" "payload (delivers bs) = bs"
  by (simp_all add: fixture_defs)

subsection \<open>Receive timeout after connecting\<close>

text \<open>
  Claim C2, as the code has it. A successful \<open>connect_to_sfdroid\<close> (sensor channel) asks
  for a receive timeout of one second on the new socket before returning it; the timeout
  is in force unless \<open>setsockopt\<close> fails, which is only logged. A successful
  \<open>connect_to_renderer\<close> (buffer relay channel) makes exactly the calls \<open>socket\<close> and
  \<open>connect\<close>: no receive timeout is configured on the socket it returns.
\<close>

theorem connect_receive_timeout:
  "(connect_to_sfdroid w = (s1, w1) \<and> 0 \<le> s1 \<longrightarrow>
      (trace w1 = trace w @ [Socket, Signal_SIGPIPE_IGN, Connect s1 SENSORS_HANDLE_FILE,
                             Setsockopt_RCVTIMEO s1 1] \<and>
       rcvtimeo w1 s1 = Some 1) \<or>
      (trace w1 = trace w @ [Socket, Signal_SIGPIPE_IGN, Connect s1 SENSORS_HANDLE_FILE,
                             Setsockopt_RCVTIMEO s1 1,
                             Log LOGE ''failed to set timeout on sensor socket''] \<and>
       rcvtimeo w1 s1 = None)) \<and>
   (connect_to_renderer w = (s2, w2) \<and> 0 \<le> s2 \<longrightarrow>
      trace w2 = trace w @ [Socket, Connect s2 SHM_BUFFER_HANDLE_FILE] \<and>
      rcvtimeo w2 s2 = None)"
proof (intro conjI impI)
  assume "connect_to_sfdroid w = (s1, w1) \<and> 0 \<le> s1"
  then show
    "(trace w1 = trace w @ [Socket, Signal_SIGPIPE_IGN, Connect s1 SENSORS_HANDLE_FILE,
                            Setsockopt_RCVTIMEO s1 1] \<and>
      rcvtimeo w1 s1 = Some 1) \<or>
     (trace w1 = trace w @ [Socket, Signal_SIGPIPE_IGN, Connect s1 SENSORS_HANDLE_FILE,
                            Setsockopt_RCVTIMEO s1 1,
                            Log LOGE ''failed to set timeout on sensor socket''] \<and>
      rcvtimeo w1 s1 = None)"
    by (auto simp: connect_to_sfdroid_def sys_defs Let_def split: list.splits if_splits)
next
  assume "connect_to_renderer w = (s2, w2) \<and> 0 \<le> s2"
  then show "trace w2 = trace w @ [Socket, Connect s2 SHM_BUFFER_HANDLE_FILE]"
    by (auto simp: connect_to_renderer_def sys_defs Let_def split: list.splits if_splits)
next
  assume "connect_to_renderer w = (s2, w2) \<and> 0 \<le> s2"
  then show "rcvtimeo w2 s2 = None"
    by (auto simp: connect_to_renderer_def sys_defs Let_def split: list.splits if_splits)
qed

theorem connect_receive_timeout_witness:
  "0 \<le> fst (connect_to_sfdroid (boot [returns 4, returns 0, returns 0])) \<and>
   rcvtimeo (snd (connect_to_sfdroid (boot [returns 4, returns 0, returns 0]))) 4 = Some 1 \<and>
   0 \<le> fst (connect_to_renderer (boot [returns 4, returns 0])) \<and>
   rcvtimeo (snd (connect_to_renderer (boot [returns 4, returns 0]))) 4 = None"
  using connect_receive_timeout
    [of "boot [returns 4, returns 0, returns 0]"
        "fst (connect_to_sfdroid (boot [returns 4, returns 0, returns 0]))"
        "snd (connect_to_sfdroid (boot [returns 4, returns 0, returns 0]))"]
  by (simp add: connect_to_sfdroid_def connect_to_renderer_def sys_defs fixture_defs Let_def)

text \<open>
  The claim as stated, that connecting sets the one-second receive timeout on the buffer
  relay channel too, fails: the renderer accepts the connection and the socket returned
  has no receive timeout, no \<open>setsockopt\<close> call having been made.
\<close>

theorem connect_to_renderer_sets_no_timeout:
  "fst (connect_to_renderer (boot [returns 4, returns 0])) = 4 \<and>
   rcvtimeo (snd (connect_to_renderer (boot [returns 4, returns 0]))) 4 \<noteq> Some 1 \<and>
   trace (snd (connect_to_renderer (boot [returns 4, returns 0]))) =
     [Socket, Connect 4 SHM_BUFFER_HANDLE_FILE]"
  by (simp add: connect_to_renderer_def sys_defs fixture_defs Let_def)

subsection \<open>The status reply\<close>

lemma bytes_OK: "bytes ''OK'' = [79, 75]"
  by (simp add: bytes_def)

lemma bytes_FA: "bytes ''FA'' = [70, 65]"
  by (simp add: bytes_def)

lemma cstring3_OK: "cstring [b0, b1, 0] = bytes ''OK'' \<longleftrightarrow> b0 = 79 \<and> b1 = 75"
  by (auto simp: cstring_def bytes_def)

lemma cstring3_FA: "cstring [b0, b1, 0] = bytes ''FA'' \<longleftrightarrow> b0 = 70 \<and> b1 = 65"
  by (auto simp: cstring_def bytes_def)

lemma recv_status_full:
  assumes "script w = a # rest" "0 \<le> ret a" "take 3 (payload a) = [b0, b1, b2]"
  shows "recv_status sock junk w =
     (if b2 \<noteq> 0 then
        (-1, None, w\<lparr>script := rest,
                      trace := trace w @ [Recv sock 3,
                        Log LOGE ''message_buffer is not a 0 terminated string'']\<rparr>)
      else if b0 = 79 \<and> b1 = 75 then
        (0, Some 0, w\<lparr>script := rest, trace := trace w @ [Recv sock 3]\<rparr>)
      else if b0 = 70 \<and> b1 = 65 then
        (-1, Some 1, w\<lparr>script := rest, trace := trace w @ [Recv sock 3]\<rparr>)
      else
        (-1, Some 1, w\<lparr>script := rest,
                        trace := trace w @ [Recv sock 3, Log LOGE ''unknown status'']\<rparr>))"
  using assms
  by (simp add: recv_status_def sys_defs Let_def cstring3_OK cstring3_FA)

text \<open>
  Claim C3, as the code has it. For a complete three-byte reply \<open>b0 b1 b2\<close> the caller
  of \<open>recv_status\<close> sees one of three outcomes: \<open>OK\<close> with a zero third byte gives return
  value \<open>0\<close> and \<open>*failed = 0\<close>; any other two bytes with a zero third byte, \<open>FA\<close> and
  unrecognised codes alike, give \<open>-1\<close> and \<open>*failed = 1\<close>; a non-zero third byte gives
  \<open>-1\<close> and leaves \<open>*failed\<close> alone. An unrecognised code differs from \<open>FA\<close> by a log
  line only.
\<close>

theorem recv_status_outcomes:
  assumes "script w = a # rest" "0 \<le> ret a" "take 3 (payload a) = [b0, b1, b2]"
  shows "fst (recv_status sock junk w) =
           (if b2 = 0 \<and> [b0, b1] = bytes ''OK'' then 0 else -1) \<and>
         fst (snd (recv_status sock junk w)) =
           (if b2 \<noteq> 0 then None
            else if [b0, b1] = bytes ''OK'' then Some 0 else Some 1) \<and>
         trace (snd (snd (recv_status sock junk w))) =
           trace w @ [Recv sock 3] @
           (if b2 \<noteq> 0 then [Log LOGE ''message_buffer is not a 0 terminated string'']
            else if [b0, b1] = bytes ''OK'' \<or> [b0, b1] = bytes ''FA'' then []
            else [Log LOGE ''unknown status''])"
  using assms by (simp add: recv_status_full bytes_OK bytes_FA)

theorem recv_status_outcomes_witness:
  "fst (recv_status 5 (0, 0, 0) (boot [delivers (bytes ''OK'' @ [0])])) = 0 \<and>
   fst (snd (recv_status 5 (0, 0, 0) (boot [delivers (bytes ''OK'' @ [0])]))) = Some 0 \<and>
   fst (recv_status 5 (0, 0, 0) (boot [delivers (bytes ''FA'' @ [0])])) = -1 \<and>
   fst (snd (recv_status 5 (0, 0, 0) (boot [delivers (bytes ''FA'' @ [0])]))) = Some 1 \<and>
   fst (recv_status 5 (0, 0, 0) (boot [delivers (bytes ''OK'' @ [1])])) = -1 \<and>
   fst (snd (recv_status 5 (0, 0, 0) (boot [delivers (bytes ''OK'' @ [1])]))) = None"
  using
    recv_status_outcomes [of "boot [delivers (bytes ''OK'' @ [0])]"
      "delivers (bytes ''OK'' @ [0])" "[]" 79 75 0 5 "(0, 0, 0)"]
    recv_status_outcomes [of "boot [delivers (bytes ''FA'' @ [0])]"
      "delivers (bytes ''FA'' @ [0])" "[]" 70 65 0 5 "(0, 0, 0)"]
    recv_status_outcomes [of "boot [delivers (bytes ''OK'' @ [1])]"
      "delivers (bytes ''OK'' @ [1])" "[]" 79 75 1 5 "(0, 0, 0)"]
  by (simp add: fixture_defs bytes_OK bytes_FA)

text \<open>
  The claim as stated, that \<open>FA\<close> and an unrecognised code are distinguishable at the
  caller, fails: the replies \<open>FA\<close> and \<open>XY\<close>, both well terminated, give the caller the
  same return value and the same \<open>*failed\<close>.
\<close>

theorem recv_status_FA_same_as_unknown_code:
  "fst (recv_status 5 (0, 0, 0) (boot [delivers (bytes ''FA'' @ [0])])) =
   fst (recv_status 5 (0, 0, 0) (boot [delivers (bytes ''XY'' @ [0])])) \<and>
   fst (snd (recv_status 5 (0, 0, 0) (boot [delivers (bytes ''FA'' @ [0])]))) =
   fst (snd (recv_status 5 (0, 0, 0) (boot [delivers (bytes ''XY'' @ [0])])))"
  by (simp add: recv_status_def sys_defs fixture_defs Let_def cstring_def bytes_def)

subsection \<open>Presenting a buffer\<close>

lemma fb_post_open_renderer:
  "fb_post al m buffer wid hei str pf junk w =
     (if 0 \<le> fd_renderer (fst (open_renderer m w)) then
        fb_post al (fst (open_renderer m w)) buffer wid hei str pf junk
          (snd (open_renderer m w))
      else (0, fst (open_renderer m w), snd (open_renderer m w)))"
  by (simp add: fb_post_def open_renderer_def case_prod_beta)

lemma fb_post_connected:
  assumes "0 \<le> fd_renderer m" "script w = a1 # a2 # rest" "0 \<le> ret a1" "0 \<le> ret a2"
    "take 3 (payload a2) = [b0, b1, 0]"
  shows "fb_post al m buffer wid hei str pf junk w =
    (if b0 = 79 \<and> b1 = 75 then
       (0, m,
        w\<lparr>script := rest,
          trace := trace w @
            [Sendmsg (fd_renderer m)
               (message_buffer buffer
                  \<lparr>width = wid, height = hei, stride = str, pixel_format = pf\<rparr>)
               (ancillary_fds al buffer),
             Recv (fd_renderer m) 3]\<rparr>)
     else
       (-1, m\<lparr>fd_renderer := -1\<rparr>,
        w\<lparr>script := rest,
          trace := trace w @
            [Sendmsg (fd_renderer m)
               (message_buffer buffer
                  \<lparr>width = wid, height = hei, stride = str, pixel_format = pf\<rparr>)
               (ancillary_fds al buffer),
             Recv (fd_renderer m) 3] @
            (if b0 = 70 \<and> b1 = 65 then [] else [Log LOGE ''unknown status'']) @
            [Log LOGW ''recv_status failed'', Close (fd_renderer m)],
          rcvtimeo := (rcvtimeo w)(fd_renderer m := None)\<rparr>))"
proof -
  let ?w2 = "w\<lparr>script := a2 # rest,
                trace := trace w @
                  [Sendmsg (fd_renderer m)
                     (message_buffer buffer
                        \<lparr>width = wid, height = hei, stride = str, pixel_format = pf\<rparr>)
                     (ancillary_fds al buffer)]\<rparr>"
  have s: "send_native_handle al (fd_renderer m) buffer wid hei str pf w = (ret a1, ?w2)"
    using assms(2)
    by (simp add: send_native_handle_def sys_sendmsg_def next_answer_def emit_def)
  have r: "recv_status (fd_renderer m) junk ?w2 =
      (if b0 = 79 \<and> b1 = 75 then
         (0, Some 0, ?w2\<lparr>script := rest, trace := trace ?w2 @ [Recv (fd_renderer m) 3]\<rparr>)
       else if b0 = 70 \<and> b1 = 65 then
         (-1, Some 1, ?w2\<lparr>script := rest, trace := trace ?w2 @ [Recv (fd_renderer m) 3]\<rparr>)
       else
         (-1, Some 1,
          ?w2\<lparr>script := rest,
              trace := trace ?w2 @ [Recv (fd_renderer m) 3, Log LOGE ''unknown status'']\<rparr>))"
    using recv_status_full [of ?w2 a2 rest b0 b1 0] assms by simp
  show ?thesis
    using assms(1,3)
    by (simp add: fb_post_def s r exit_error_def sys_close_def alog_def emit_def)
qed

lemma open_renderer_listening:
  "open_renderer \<lparr>fd_renderer = -1\<rparr> (boot (returns 4 # returns 0 # sc)) =
     (\<lparr>fd_renderer = 4\<rparr>,
      \<lparr>script = sc,
        trace = [Log LOGW ''connecting to renderer'', Socket,
                 Connect 4 SHM_BUFFER_HANDLE_FILE],
        rcvtimeo = (\<lambda>sock. None)\<rparr>)"
  by (simp add: open_renderer_def connect_to_renderer_def sys_defs fixture_defs Let_def
        fun_upd_idem)

text \<open>
  Claim C1, as the code has it. Let the channel be connected when \<open>fb_post\<close> reaches its
  send, having been so at entry or having just been connected, and let the send succeed.
  Then a complete, well-terminated \<open>FA\<close> reply makes \<open>fb_post\<close> return \<open>-1\<close> and
  invalidates the channel: the descriptor is closed and \<open>fd_renderer\<close> is set to \<open>-1\<close>, so
  that the next call reconnects. A complete \<open>OK\<close> reply makes it return \<open>0\<close> and leaves the
  channel open and connected.
\<close>

theorem fb_post_FA_reply_closes_channel:
  assumes "open_renderer m w = (m1, w1)" "0 \<le> fd_renderer m1"
    and "script w1 = a1 # a2 # rest" "0 \<le> ret a1" "0 \<le> ret a2"
  shows "(take 3 (payload a2) = bytes ''FA'' @ [0] \<longrightarrow>
           fb_post al m buffer wid hei str pf junk w =
             (-1, m1\<lparr>fd_renderer := -1\<rparr>,
              w1\<lparr>script := rest,
                trace := trace w1 @
                  [Sendmsg (fd_renderer m1)
                     (message_buffer buffer
                        \<lparr>width = wid, height = hei, stride = str, pixel_format = pf\<rparr>)
                     (ancillary_fds al buffer),
                   Recv (fd_renderer m1) 3,
                   Log LOGW ''recv_status failed'', Close (fd_renderer m1)],
                rcvtimeo := (rcvtimeo w1)(fd_renderer m1 := None)\<rparr>)) \<and>
         (take 3 (payload a2) = bytes ''OK'' @ [0] \<longrightarrow>
           fb_post al m buffer wid hei str pf junk w =
             (0, m1,
              w1\<lparr>script := rest,
                trace := trace w1 @
                  [Sendmsg (fd_renderer m1)
                     (message_buffer buffer
                        \<lparr>width = wid, height = hei, stride = str, pixel_format = pf\<rparr>)
                     (ancillary_fds al buffer),
                   Recv (fd_renderer m1) 3]\<rparr>))"
proof -
  have "fb_post al m buffer wid hei str pf junk w =
        fb_post al m1 buffer wid hei str pf junk w1"
    using assms(1,2) fb_post_open_renderer [of al m buffer wid hei str pf junk w] by simp
  then show ?thesis
    using fb_post_connected [OF assms(2-5), of 70 65 al buffer wid hei str pf junk]
      fb_post_connected [OF assms(2-5), of 79 75 al buffer wid hei str pf junk]
    by (simp add: bytes_OK bytes_FA)
qed

theorem fb_post_FA_reply_closes_channel_witness:
  "fst (fb_post 8 \<lparr>fd_renderer = 5\<rparr> one_fd_handle 1 2 3 4 (0, 0, 0)
          (boot [returns 0, delivers (bytes ''FA'' @ [0])])) = -1 \<and>
   fst (snd (fb_post 8 \<lparr>fd_renderer = 5\<rparr> one_fd_handle 1 2 3 4 (0, 0, 0)
          (boot [returns 0, delivers (bytes ''FA'' @ [0])]))) = \<lparr>fd_renderer = -1\<rparr> \<and>
   fst (fb_post 8 \<lparr>fd_renderer = 5\<rparr> one_fd_handle 1 2 3 4 (0, 0, 0)
          (boot [returns 0, delivers (bytes ''OK'' @ [0])])) = 0 \<and>
   fst (snd (fb_post 8 \<lparr>fd_renderer = 5\<rparr> one_fd_handle 1 2 3 4 (0, 0, 0)
          (boot [returns 0, delivers (bytes ''OK'' @ [0])]))) = \<lparr>fd_renderer = 5\<rparr> \<and>
   fst (fb_post 8 \<lparr>fd_renderer = -1\<rparr> one_fd_handle 1 2 3 4 (0, 0, 0)
          (boot [returns 4, returns 0, returns 0, delivers (bytes ''FA'' @ [0])])) = -1 \<and>
   fst (snd (fb_post 8 \<lparr>fd_renderer = -1\<rparr> one_fd_handle 1 2 3 4 (0, 0, 0)
          (boot [returns 4, returns 0, returns 0, delivers (bytes ''FA'' @ [0])]))) =
     \<lparr>fd_renderer = -1\<rparr> \<and>
   fst (fb_post 8 \<lparr>fd_renderer = -1\<rparr> one_fd_handle 1 2 3 4 (0, 0, 0)
          (boot [returns 4, returns 0, returns 0, delivers (bytes ''OK'' @ [0])])) = 0 \<and>
   fst (snd (fb_post 8 \<lparr>fd_renderer = -1\<rparr> one_fd_handle 1 2 3 4 (0, 0, 0)
          (boot [returns 4, returns 0, returns 0, delivers (bytes ''OK'' @ [0])]))) =
     \<lparr>fd_renderer = 4\<rparr>"
proof -
  have connected: "open_renderer \<lparr>fd_renderer = 5\<rparr> w = (\<lparr>fd_renderer = 5\<rparr>, w)" for w
    by (simp add: open_renderer_def)
  show ?thesis
    using
      fb_post_FA_reply_closes_channel [OF connected, of
        "boot [returns 0, delivers (bytes ''FA'' @ [0])]" "returns 0"
        "delivers (bytes ''FA'' @ [0])" "[]" 8 one_fd_handle 1 2 3 4 "(0, 0, 0)"]
      fb_post_FA_reply_closes_channel [OF connected, of
        "boot [returns 0, delivers (bytes ''OK'' @ [0])]" "returns 0"
        "delivers (bytes ''OK'' @ [0])" "[]" 8 one_fd_handle 1 2 3 4 "(0, 0, 0)"]
      fb_post_FA_reply_closes_channel [OF open_renderer_listening, of
        "[returns 0, delivers (bytes ''FA'' @ [0])]" "returns 0"
        "delivers (bytes ''FA'' @ [0])" "[]" 8 one_fd_handle 1 2 3 4 "(0, 0, 0)"]
      fb_post_FA_reply_closes_channel [OF open_renderer_listening, of
        "[returns 0, delivers (bytes ''OK'' @ [0])]" "returns 0"
        "delivers (bytes ''OK'' @ [0])" "[]" 8 one_fd_handle 1 2 3 4 "(0, 0, 0)"]
    by (simp add: fixture_defs bytes_OK bytes_FA)
qed

text \<open>
  The claim as stated, that the relay channel remains open and connected after an \<open>FA\<close>
  reply, fails: with the channel connected on descriptor 5, a successful send and the
  reply \<open>FA\<close> followed by a zero byte, \<open>fb_post\<close> closes descriptor 5 and leaves the
  channel marked disconnected.
\<close>

theorem fb_post_FA_reply_not_kept_open:
  "fst (fb_post 8 \<lparr>fd_renderer = 5\<rparr> one_fd_handle 1 2 3 4 (0, 0, 0)
          (boot [returns 0, delivers (bytes ''FA'' @ [0])])) = -1 \<and>
   fd_renderer (fst (snd (fb_post 8 \<lparr>fd_renderer = 5\<rparr> one_fd_handle 1 2 3 4 (0, 0, 0)
          (boot [returns 0, delivers (bytes ''FA'' @ [0])])))) = -1 \<and>
   trace (snd (snd (fb_post 8 \<lparr>fd_renderer = 5\<rparr> one_fd_handle 1 2 3 4 (0, 0, 0)
          (boot [returns 0, delivers (bytes ''FA'' @ [0])])))) =
     [Sendmsg 5 [1, 2, 3, 4, 12, 1, 0, 7] [7, 0], Recv 5 3,
      Log LOGW ''recv_status failed'', Close 5]"
  by (simp add: fb_post_def send_native_handle_def recv_status_def exit_error_def sys_defs
        fixture_defs Let_def cstring_def bytes_def one_fd_handle_def message_buffer_def
        ancillary_fds_def control_cells_def CMSG_ALIGN_def buffer_size_def handle_size_def
        info_cells_def handle_cells_def)

text \<open>
  Claim C7, as the code has it. When \<open>fb_post\<close> is entered with the channel disconnected
  and \<open>connect_to_renderer\<close> fails, the call returns \<open>0\<close>, the value it returns when the
  buffer was sent and answered by \<open>OK\<close>, so that no failure reaches the caller. The failure is written to the error
  log by \<open>connect_to_renderer\<close> (the socket could not be created, or the renderer could
  not be reached), the channel stays disconnected, and the call makes no call but those
  of the connection attempt: nothing is sent and nothing is received.
\<close>

theorem fb_post_peer_unavailable:
  assumes "fd_renderer m < 0"
    and "fst (connect_to_renderer (alog LOGW ''connecting to renderer'' w)) < 0"
  shows "fb_post al m buffer wid hei str pf junk w =
           (0, m\<lparr>fd_renderer := -1\<rparr>,
            snd (connect_to_renderer (alog LOGW ''connecting to renderer'' w))) \<and>
         (trace (snd (connect_to_renderer (alog LOGW ''connecting to renderer'' w))) =
            trace w @ [Log LOGW ''connecting to renderer'', Socket,
                       Log LOGE ''error creating socket stream''] \<or>
          (\<exists>s. trace (snd (connect_to_renderer (alog LOGW ''connecting to renderer'' w))) =
            trace w @ [Log LOGW ''connecting to renderer'', Socket,
                       Connect s SHM_BUFFER_HANDLE_FILE,
                       Log LOGE ''error connecting to renderer'', Close s])) \<and>
         (0 \<le> fd_renderer m' \<and> script w' = a1 # a2 # rest \<and> 0 \<le> ret a1 \<and> 0 \<le> ret a2 \<and>
          take 3 (payload a2) = bytes ''OK'' @ [0] \<longrightarrow>
            fst (fb_post al m' buffer wid hei str pf junk w') =
            fst (fb_post al m buffer wid hei str pf junk w))"
proof -
  have unavailable:
    "fb_post al m buffer wid hei str pf junk w =
       (0, m\<lparr>fd_renderer := -1\<rparr>,
        snd (connect_to_renderer (alog LOGW ''connecting to renderer'' w))) \<and>
     (trace (snd (connect_to_renderer (alog LOGW ''connecting to renderer'' w))) =
        trace w @ [Log LOGW ''connecting to renderer'', Socket,
                   Log LOGE ''error creating socket stream''] \<or>
      (\<exists>s. trace (snd (connect_to_renderer (alog LOGW ''connecting to renderer'' w))) =
        trace w @ [Log LOGW ''connecting to renderer'', Socket,
                   Connect s SHM_BUFFER_HANDLE_FILE,
                   Log LOGE ''error connecting to renderer'', Close s]))"
    using assms
    by (auto simp: fb_post_def connect_to_renderer_def sys_defs Let_def
          split: list.splits if_splits prod.splits)
  have answered: "fst (fb_post al m' buffer wid hei str pf junk w') = 0"
    if "0 \<le> fd_renderer m'" "script w' = a1 # a2 # rest" "0 \<le> ret a1" "0 \<le> ret a2"
      "take 3 (payload a2) = bytes ''OK'' @ [0]"
    using fb_post_connected [OF that(1-4), of 79 75 al buffer wid hei str pf junk] that(5)
    by (simp add: bytes_OK)
  from unavailable answered show ?thesis by simp
qed

theorem fb_post_peer_unavailable_witness:
  "fd_renderer \<lparr>fd_renderer = -1\<rparr> < 0 \<and>
   fst (connect_to_renderer
          (alog LOGW ''connecting to renderer'' (boot [returns 4, returns (-1)]))) < 0 \<and>
   fst (fb_post 8 \<lparr>fd_renderer = -1\<rparr> one_fd_handle 1 2 3 4 (0, 0, 0)
          (boot [returns 4, returns (-1)])) = 0 \<and>
   fst (snd (fb_post 8 \<lparr>fd_renderer = -1\<rparr> one_fd_handle 1 2 3 4 (0, 0, 0)
          (boot [returns 4, returns (-1)]))) = \<lparr>fd_renderer = -1\<rparr> \<and>
   trace (snd (snd (fb_post 8 \<lparr>fd_renderer = -1\<rparr> one_fd_handle 1 2 3 4 (0, 0, 0)
          (boot [returns 4, returns (-1)])))) =
     [Log LOGW ''connecting to renderer'', Socket, Connect 4 SHM_BUFFER_HANDLE_FILE,
      Log LOGE ''error connecting to renderer'', Close 4] \<and>
   0 \<le> fd_renderer \<lparr>fd_renderer = 5\<rparr> \<and>
   take 3 (payload (delivers (bytes ''OK'' @ [0]))) = bytes ''OK'' @ [0] \<and>
   fst (fb_post 8 \<lparr>fd_renderer = 5\<rparr> one_fd_handle 1 2 3 4 (0, 0, 0)
          (boot [returns 0, delivers (bytes ''OK'' @ [0])])) =
   fst (fb_post 8 \<lparr>fd_renderer = -1\<rparr> one_fd_handle 1 2 3 4 (0, 0, 0)
          (boot [returns 4, returns (-1)]))"
proof -
  have c: "connect_to_renderer
             (alog LOGW ''connecting to renderer'' (boot [returns 4, returns (-1)])) =
           (-1, \<lparr>script = [],
                 trace = [Log LOGW ''connecting to renderer'', Socket,
                          Connect 4 SHM_BUFFER_HANDLE_FILE,
                          Log LOGE ''error connecting to renderer'', Close 4],
                 rcvtimeo = (\<lambda>sock. None)\<rparr>)"
    by (simp add: connect_to_renderer_def sys_defs fixture_defs Let_def fun_upd_idem)
  show ?thesis
    using fb_post_peer_unavailable [where m = "\<lparr>fd_renderer = -1\<rparr>"
      and w = "boot [returns 4, returns (-1)]" and al = 8 and buffer = one_fd_handle
      and wid = 1 and hei = 2 and str = 3 and pf = 4 and junk = "(0, 0, 0)"
      and m' = "\<lparr>fd_renderer = 5\<rparr>"
      and w' = "boot [returns 0, delivers (bytes ''OK'' @ [0])]"
      and ?a1.0 = "returns 0" and ?a2.0 = "delivers (bytes ''OK'' @ [0])" and rest = "[]"]
    by (simp add: c fixture_fields bytes_OK)
qed

text \<open>
  The claim as stated, that the call reports a failure kind, fails: with the renderer
  not listening the call returns \<open>0\<close>, which is what it returns when the buffer was sent
  and the renderer answered \<open>OK\<close>.
\<close>

theorem fb_post_peer_unavailable_returns_success:
  "fst (fb_post 8 \<lparr>fd_renderer = -1\<rparr> one_fd_handle 1 2 3 4 (0, 0, 0)
          (boot [returns 4, returns (-1)])) = 0 \<and>
   fst (fb_post 8 \<lparr>fd_renderer = 5\<rparr> one_fd_handle 1 2 3 4 (0, 0, 0)
          (boot [returns 0, delivers (bytes ''OK'' @ [0])])) = 0 \<and>
   fst (fb_post 8 \<lparr>fd_renderer = -1\<rparr> one_fd_handle 1 2 3 4 (0, 0, 0)
          (boot [returns 4, returns (-1)])) =
   fst (fb_post 8 \<lparr>fd_renderer = 5\<rparr> one_fd_handle 1 2 3 4 (0, 0, 0)
          (boot [returns 0, delivers (bytes ''OK'' @ [0])]))"
  by (simp add: fb_post_def connect_to_renderer_def send_native_handle_def recv_status_def
        sys_defs fixture_defs Let_def cstring_def bytes_def)

subsection \<open>The outbound relay message\<close>

lemma handle_size_unat:
  assumes "0 \<le> sint (numFds h)" "0 \<le> sint (numInts h)"
    and "length (data h) = nat (sint (numFds h)) + nat (sint (numInts h))"
    and "28 + 4 * length (data h) < 2 ^ 32"
  shows "unat (handle_size h) = 12 + 4 * length (data h)"
    and "unat (buffer_size h) = 28 + 4 * length (data h)"
proof -
  have pos: "nat (sint x) = unat x" if "0 \<le> sint x" for x :: cell
  proof -
    have "sint x < 2 ^ 32" using sint_lt [of x] by simp
    with that have "take_bit 32 (sint x) = sint x" by (simp add: take_bit_int_eq_self)
    then have "uint x = sint x" using uint_sint [of x] by simp
    then show ?thesis by (metis nat_uint_eq)
  qed
  have len: "unat (numFds h) + unat (numInts h) = length (data h)"
    using assms(1,2,3) by (simp add: pos)
  have small: "length (data h) < 2 ^ 32" "4 * length (data h) < 2 ^ 32"
    "12 + 4 * length (data h) < 2 ^ 32"
    using assms(4) by simp_all
  define s where "s = numFds h + numInts h"
  have sum: "unat s = length (data h)"
    unfolding s_def using len small(1) by (simp add: unat_word_ariths)
  have "unat (4 :: cell) * unat s < 2 ^ LENGTH(32)"
    using sum small(2) by simp
  then have "unat (4 * s) = unat (4 :: cell) * unat s"
    by (simp only: unat_mult_lem)
  then have prod: "unat (4 * s) = 4 * length (data h)"
    using sum by simp
  have "unat (12 :: cell) + unat (4 * s) < 2 ^ LENGTH(32)"
    using prod small(3) by simp
  then have "unat (12 + 4 * s) = unat (12 :: cell) + unat (4 * s)"
    by (simp only: unat_add_lem)
  then show "unat (handle_size h) = 12 + 4 * length (data h)"
    using prod by (simp add: handle_size_def s_def)
  have "unat (28 :: cell) + unat (4 * s) < 2 ^ LENGTH(32)"
    using prod assms(4) by simp
  then have "unat (28 + 4 * s) = unat (28 :: cell) + unat (4 * s)"
    by (simp only: unat_add_lem)
  then show "unat (buffer_size h) = 28 + 4 * length (data h)"
    using prod by (simp add: buffer_size_def s_def)
qed

lemma CMSG_ALIGN_4: "CMSG_ALIGN 4 (4 * n) div 4 = n"
  by (simp add: CMSG_ALIGN_def)

lemma CMSG_ALIGN_8: "CMSG_ALIGN 8 (4 * n) div 4 = n + n mod 2"
proof (cases "even n")
  case True
  then obtain k where n: "n = 2 * k" by (auto elim: evenE)
  have "(8 * k + 7) div 8 = k" by simp
  then show ?thesis by (simp add: CMSG_ALIGN_def n)
next
  case False
  then obtain k where n: "n = 2 * k + 1" by (auto elim: oddE)
  have "(8 * k + 11) div 8 = k + 1" by simp
  then show ?thesis by (simp add: CMSG_ALIGN_def n)
qed

text \<open>
  Claim C4, as the code has it. For a handle whose counts are not negative, whose data
  holds \<open>numFds + numInts\<close> integers, and whose message size fits an \<open>unsigned int\<close>, the
  one message \<open>send_native_handle\<close> sends holds, back to back, the four descriptor
  fields, the three header fields of the handle, and then all of the handle's data: its
  \<open>numFds\<close> descriptor numbers followed by its \<open>numInts\<close> plain integers. The
  descriptors are carried a second time at the start of the data of the \<open>SCM_RIGHTS\<close>
  control message of the same \<open>sendmsg\<close> call. As the length of the control message is
  \<open>CMSG_SPACE\<close>, not \<open>CMSG_LEN\<close>, of the descriptors' size, its data is as long as the
  alignment makes it: exactly the descriptors where the unit is 4 bytes, and one more
  cell, holding 0, where the unit is 8 bytes and \<open>numFds\<close> is odd.
\<close>

theorem send_native_handle_message_layout:
  assumes "0 \<le> sint (numFds h)" "0 \<le> sint (numInts h)"
    and "length (data h) = nat (sint (numFds h)) + nat (sint (numInts h))"
    and "28 + 4 * length (data h) < 2 ^ 32"
  shows "send_native_handle al sock h wid hei str pf w =
           sys_sendmsg sock
             ([wid, hei, str, pf] @ [version h, numFds h, numInts h] @
              take (nat (sint (numFds h))) (data h) @
              drop (nat (sint (numFds h))) (data h))
             (take (nat (sint (numFds h))) (data h) @
              replicate (control_cells al h - nat (sint (numFds h))) 0) w \<and>
         (al = 4 \<longrightarrow> control_cells al h = nat (sint (numFds h))) \<and>
         (al = 8 \<longrightarrow>
            control_cells al h = nat (sint (numFds h)) + nat (sint (numFds h)) mod 2)"
proof -
  have "(12 + 4 * length (data h)) div 4 = 3 + length (data h)" by simp
  moreover have "(28 + 4 * length (data h)) div 4 = 7 + length (data h)" by simp
  ultimately have "send_native_handle al sock h wid hei str pf w =
           sys_sendmsg sock
             ([wid, hei, str, pf] @ [version h, numFds h, numInts h] @
              take (nat (sint (numFds h))) (data h) @
              drop (nat (sint (numFds h))) (data h))
             (take (nat (sint (numFds h))) (data h) @
              replicate (control_cells al h - nat (sint (numFds h))) 0) w"
    using handle_size_unat [OF assms]
    by (simp add: send_native_handle_def message_buffer_def ancillary_fds_def
          info_cells_def handle_cells_def)
  then show ?thesis
    by (simp add: control_cells_def CMSG_ALIGN_4 CMSG_ALIGN_8)
qed

theorem send_native_handle_message_layout_witness:
  "0 \<le> sint (numFds fd_and_ints_handle) \<and> 0 \<le> sint (numInts fd_and_ints_handle) \<and>
   length (data fd_and_ints_handle) =
     nat (sint (numFds fd_and_ints_handle)) + nat (sint (numInts fd_and_ints_handle)) \<and>
   trace (snd (send_native_handle 4 5 fd_and_ints_handle 1 2 3 4 (boot [returns 0]))) =
     [Sendmsg 5 [1, 2, 3, 4, 12, 1, 2, 7, 8, 9] [7]] \<and>
   trace (snd (send_native_handle 8 5 fd_and_ints_handle 1 2 3 4 (boot [returns 0]))) =
     [Sendmsg 5 [1, 2, 3, 4, 12, 1, 2, 7, 8, 9] [7, 0]]"
  using
    send_native_handle_message_layout [of fd_and_ints_handle 4 5 1 2 3 4 "boot [returns 0]"]
    send_native_handle_message_layout [of fd_and_ints_handle 8 5 1 2 3 4 "boot [returns 0]"]
  by (simp add: fd_and_ints_handle_def sys_defs fixture_defs)

text \<open>
  The claim as stated, that the message holds the \<open>numInts\<close> plain integers only and the
  descriptors are not inline message bytes, fails: for a handle of one descriptor, 7, and
  no integers the message sent ends with the cell 7, which the message described by the
  claim does not contain.
\<close>

theorem send_native_handle_descriptors_inline:
  "trace (snd (send_native_handle 8 5 one_fd_handle 1 2 3 4 (boot [returns 0]))) =
     [Sendmsg 5 [1, 2, 3, 4, 12, 1, 0, 7] [7, 0]] \<and>
   trace (snd (send_native_handle 4 5 one_fd_handle 1 2 3 4 (boot [returns 0]))) =
     [Sendmsg 5 [1, 2, 3, 4, 12, 1, 0, 7] [7]] \<and>
   spec_relay_message one_fd_handle
     \<lparr>width = 1, height = 2, stride = 3, pixel_format = 4\<rparr> = [1, 2, 3, 4, 12, 1, 0] \<and>
   message_buffer one_fd_handle \<lparr>width = 1, height = 2, stride = 3, pixel_format = 4\<rparr> \<noteq>
   spec_relay_message one_fd_handle \<lparr>width = 1, height = 2, stride = 3, pixel_format = 4\<rparr>"
  by (simp add: send_native_handle_def message_buffer_def ancillary_fds_def control_cells_def
        CMSG_ALIGN_def info_cells_def handle_cells_def buffer_size_def handle_size_def
        one_fd_handle_def spec_relay_message_def sys_defs fixture_defs)

subsection \<open>The sensor channel\<close>

lemma open_connection_connected:
  "0 \<le> fd ctl \<Longrightarrow> open_connection ctl w = (ctl, w)"
  by (simp add: open_connection_def)

lemma open_connection_disconnected:
  "fd ctl < 0 \<Longrightarrow>
     open_connection ctl w =
       (ctl\<lparr>fd := fst (connect_to_sfdroid w)\<rparr>, snd (connect_to_sfdroid w))"
  by (simp add: open_connection_def case_prod_beta)

lemma connect_to_sfdroid_failure:
  "fst (connect_to_sfdroid w) < 0 \<Longrightarrow> fst (connect_to_sfdroid w) = -1"
  by (auto simp: connect_to_sfdroid_def Let_def split: prod.splits if_splits)

lemma connect_to_sfdroid_no_send:
  "filter is_send (trace (snd (connect_to_sfdroid w))) = filter is_send (trace w)"
  by (simp add: connect_to_sfdroid_def sys_defs Let_def split: list.splits)

lemma open_connection_no_send:
  "filter is_send (trace (snd (open_connection ctl w))) = filter is_send (trace w)"
  by (cases "fd ctl < 0")
     (simp_all add: open_connection_disconnected open_connection_connected
        connect_to_sfdroid_no_send)

lemma sensor_ids_differ:
  "ID_PROXIMITY unsigned_char_platform \<noteq> ID_ACCELERATION unsigned_char_platform"
  "ID_MAGNETIC_FIELD unsigned_char_platform \<noteq> ID_ACCELERATION unsigned_char_platform"
  by (simp_all add: ID_PROXIMITY_def ID_MAGNETIC_FIELD_def ID_ACCELERATION_def)

text \<open>
  Claim C5, as the code has it. For a sensor kind other than acceleration, \<open>activate\<close>
  and \<open>setDelay\<close> return \<open>-1\<close> and send nothing. Both begin, whatever the kind, by the
  connection attempt every call begins with: none when the channel is connected (the
  world is then left as it was), one \<open>connect_to_sfdroid\<close> when it is not. \<open>setDelay\<close>
  stores the delay before it looks at the kind.
\<close>

theorem unsupported_sensor_kind_rejected:
  assumes "handle \<noteq> ID_ACCELERATION P"
  shows "poll__activate P ctl handle enabled w =
           (-1, fst (open_connection ctl w), snd (open_connection ctl w)) \<and>
         poll__setDelay P ctl handle ns w =
           (-1, (fst (open_connection ctl w))\<lparr>delay := ns\<rparr>, snd (open_connection ctl w)) \<and>
         filter is_send (trace (snd (open_connection ctl w))) = filter is_send (trace w) \<and>
         (0 \<le> fd ctl \<longrightarrow> open_connection ctl w = (ctl, w)) \<and>
         (fd ctl < 0 \<longrightarrow>
            open_connection ctl w =
              (ctl\<lparr>fd := fst (connect_to_sfdroid w)\<rparr>, snd (connect_to_sfdroid w)))"
  using assms
  by (simp add: poll__activate_def poll__setDelay_def open_connection_no_send
        open_connection_connected open_connection_disconnected case_prod_beta)

theorem unsupported_sensor_kind_rejected_witness:
  "ID_PROXIMITY unsigned_char_platform \<noteq> ID_ACCELERATION unsigned_char_platform \<and>
   poll__activate unsigned_char_platform \<lparr>fd = 3, delay = 0\<rparr>
     (ID_PROXIMITY unsigned_char_platform) 1 (boot []) =
     (-1, \<lparr>fd = 3, delay = 0\<rparr>, boot []) \<and>
   poll__setDelay unsigned_char_platform \<lparr>fd = 3, delay = 0\<rparr>
     (ID_PROXIMITY unsigned_char_platform) 5000 (boot []) =
     (-1, \<lparr>fd = 3, delay = 5000\<rparr>, boot []) \<and>
   fst (poll__activate unsigned_char_platform open_sensors
     (ID_PROXIMITY unsigned_char_platform) 1 (boot [])) = -1 \<and>
   trace (snd (snd (poll__activate unsigned_char_platform open_sensors
     (ID_PROXIMITY unsigned_char_platform) 1 (boot [])))) =
     [Socket, Log LOGE ''error creating socket stream'']"
proof -
  have c: "connect_to_sfdroid (boot []) =
             (-1, (boot [])\<lparr>trace := [Socket, Log LOGE ''error creating socket stream'']\<rparr>)"
    by (simp add: connect_to_sfdroid_def sys_defs fixture_defs Let_def)
  show ?thesis
    using sensor_ids_differ(1)
      unsupported_sensor_kind_rejected [OF sensor_ids_differ(1), of "\<lparr>fd = 3, delay = 0\<rparr>" 1 "boot []" 5000]
      unsupported_sensor_kind_rejected [OF sensor_ids_differ(1), of open_sensors 1 "boot []" 5000]
    by (simp add: c open_sensors_def)
qed

text \<open>
  The claim as stated, that no socket operation at all is performed, not even a
  connection attempt, fails: \<open>activate\<close> for the magnetic field sensor on a freshly opened
  device, with the peer listening, creates a socket, connects it and sets its timeout,
  and leaves the channel connected on descriptor 3.
\<close>

theorem poll__activate_unsupported_kind_connects:
  "poll__activate unsigned_char_platform open_sensors
     (ID_MAGNETIC_FIELD unsigned_char_platform) 1
     (boot [returns 3, returns 0, returns 0]) =
   (-1, \<lparr>fd = 3, delay = 0\<rparr>,
    \<lparr>script = [],
      trace = [Socket, Signal_SIGPIPE_IGN, Connect 3 SENSORS_HANDLE_FILE,
               Setsockopt_RCVTIMEO 3 1],
      rcvtimeo = (rcvtimeo (boot []))(3 := Some 1)\<rparr>)"
  by (simp add: poll__activate_def open_connection_def connect_to_sfdroid_def sys_defs
        fixture_defs Let_def unsigned_char_platform_def ID_MAGNETIC_FIELD_def
        ID_ACCELERATION_def ID_BASE_def)

text \<open>
  Claim C9. When \<open>poll__poll\<close> is entered with the channel disconnected and the
  connection attempt fails, it returns \<open>0\<close> with no event record, whatever \<open>count\<close> is,
  having made no call but those of the attempt; the channel stays disconnected.
\<close>

theorem poll__poll_peer_absent:
  assumes "fd ctl < 0" "fst (connect_to_sfdroid w) < 0"
  shows "poll__poll P ctl count w =
           Inr (0, ctl\<lparr>fd := -1\<rparr>, [], snd (connect_to_sfdroid w))"
  using assms connect_to_sfdroid_failure [OF assms(2)]
  by (simp add: poll__poll_def open_connection_disconnected)

theorem poll__poll_peer_absent_witness:
  "fd open_sensors < 0 \<and>
   fst (connect_to_sfdroid (boot [returns 4, returns (-1)])) < 0 \<and>
   poll__poll unsigned_char_platform open_sensors 1 (boot [returns 4, returns (-1)]) =
     Inr (0, \<lparr>fd = -1, delay = 0\<rparr>, [],
          (boot [])\<lparr>trace := [Socket, Signal_SIGPIPE_IGN, Connect 4 SENSORS_HANDLE_FILE,
                             Log LOGE ''error connecting to sfdroidsensors'',
                             Usleep 100000, Close 4]\<rparr>)"
proof -
  have c: "connect_to_sfdroid (boot [returns 4, returns (-1)]) =
     (-1, (boot [])\<lparr>trace := [Socket, Signal_SIGPIPE_IGN, Connect 4 SENSORS_HANDLE_FILE,
                             Log LOGE ''error connecting to sfdroidsensors'',
                             Usleep 100000, Close 4]\<rparr>)"
    by (simp add: connect_to_sfdroid_def sys_defs fixture_defs Let_def fun_upd_idem)
  show ?thesis
    using poll__poll_peer_absent [of open_sensors "boot [returns 4, returns (-1)]"
      unsigned_char_platform 1]
    by (simp add: c open_sensors_def)
qed

subsection \<open>One pass through the polling loop\<close>








lemma platform_fields:
  "char_signed unsigned_char_platform = False"
  "char_signed signed_char_platform = True"
  "ID_ACCELERATION unsigned_char_platform = 0"
  "ID_ACCELERATION signed_char_platform = 0"
  by (simp_all add: unsigned_char_platform_def signed_char_platform_def
        ID_ACCELERATION_def ID_BASE_def)







subsection \<open>The polling loop\<close>







subsection \<open>The length of the payload request\<close>

text \<open>
  Claim C10. Where plain \<open>char\<close> is signed, a received prefix byte above 127 is a
  negative \<open>char\<close>, and its conversion to the \<open>size_t\<close> length of the payload \<open>recv\<close> is
  a number far beyond the 256 bytes of \<open>buff\<close>: for the prefix byte 128 the request is
  \<open>2^32 - 128\<close> bytes. A peer that then delivers 300 bytes has them all stored, and the
  terminator is written at index 300: both are outside \<open>buff\<close>.
\<close>

theorem poll__poll_signed_prefix_overrun:
  "recv_request signed_char_platform 128 = 4294967168 \<and>
   poll__poll signed_char_platform \<lparr>fd = 3, delay = 0\<rparr> 1
     (boot [returns 0, returns 0, delivers [128], delivers (replicate 300 65)]) =
   Inl (Overrun 300)"
  by (simp add: poll__poll_def open_connection_def poll_iteration_def sys_defs fixture_defs
        Let_def BUFF_SIZE_def recv_request_def platform_fields)

end
